theory Spec2Isabelle
  imports Main "HOL-Library.Word"
begin

section \<open>The cluster session manager (internal/kube/manager.go)\<close>

text \<open>
  The manager holds the active clientset, the namespace, the raw kubeconfig and the mode
  flag. The clientset and the REST configuration are handles of the client library; they
  are type parameters \<open>'c\<close> and \<open>'r\<close>. The entries of \<open>rawConfig.Contexts\<close> are only
  tested for presence, so their type is the parameter \<open>'x\<close>.
\<close>

record 'x api_Config =
  api_Contexts :: "string \<rightharpoonup> 'x"
  api_CurrentContext :: string

record ('c, 'x) Manager =
  clientset :: 'c
  namespace :: string
  rawConfig :: "'x api_Config"
  isLocal :: bool

text \<open>
  What the calls into the client library and the operating system return. Each fallible
  call is a sum: \<open>Inl\<close> carries the error text, \<open>Inr\<close> the value. The deferred-loading
  client config built in \<open>NewManager\<close> is determined by the kubeconfig path, the one built in
  \<open>SwitchContext\<close> by the context name it overrides.
\<close>

record ('c, 'r, 'x) kube_env =
  InClusterConfig :: "string + 'r"
  ReadFile_namespace :: "string + string"
  NewForConfig :: "'r \<Rightarrow> string + 'c"
  HomeDir :: string
  Getenv_KUBECONFIG :: string
  path_RawConfig :: "string \<Rightarrow> string + 'x api_Config"
  path_Namespace :: "string \<Rightarrow> string + string"
  path_ClientConfig :: "string \<Rightarrow> string + 'r"
  override_Namespace :: "string \<Rightarrow> string + string"
  override_ClientConfig :: "string \<Rightarrow> string + 'r"

datatype kube_error =
    InClusterClientsetFailed string
  | NoKubeconfigFound
  | LoadRawConfigFailed string
  | CreateRestConfigFailed string
  | CreateClientsetFailed string
  | CannotSwitchInCluster
  | ContextNotFound string
  | SwitchRestConfigFailed string string
  | SwitchClientsetFailed string string

definition zero_Config :: "'x api_Config" where
  "zero_Config = \<lparr>api_Contexts = Map.empty, api_CurrentContext = []\<rparr>"

definition NewManager ::
  "('c, 'r, 'x) kube_env \<Rightarrow> string \<Rightarrow> kube_error + ('c, 'x) Manager" where
  "NewManager env initialNamespace =
     (case InClusterConfig env of
        Inr config \<Rightarrow>
          (let ns = (if initialNamespace = []
                     then (case ReadFile_namespace env of
                             Inr data \<Rightarrow> data
                           | Inl e \<Rightarrow> ''default'')
                     else initialNamespace)
           in case NewForConfig env config of
                Inl e \<Rightarrow> Inl (InClusterClientsetFailed e)
              | Inr cs \<Rightarrow>
                  Inr \<lparr>clientset = cs, namespace = ns, rawConfig = zero_Config,
                       isLocal = False\<rparr>)
      | Inl e0 \<Rightarrow>
          (let kubeconfig = (if HomeDir env \<noteq> [] then HomeDir env @ ''/.kube/config''
                             else Getenv_KUBECONFIG env)
           in if kubeconfig = [] then Inl NoKubeconfigFound
              else case path_RawConfig env kubeconfig of
                     Inl e \<Rightarrow> Inl (LoadRawConfigFailed e)
                   | Inr raw \<Rightarrow>
                       (let ns = (if initialNamespace = []
                                  then (case path_Namespace env kubeconfig of
                                          Inr n \<Rightarrow> if n \<noteq> [] then n else ''default''
                                        | Inl e \<Rightarrow> ''default'')
                                  else initialNamespace)
                        in case path_ClientConfig env kubeconfig of
                             Inl e \<Rightarrow> Inl (CreateRestConfigFailed e)
                           | Inr restConfig \<Rightarrow>
                               (case NewForConfig env restConfig of
                                  Inl e \<Rightarrow> Inl (CreateClientsetFailed e)
                                | Inr cs \<Rightarrow>
                                    Inr \<lparr>clientset = cs, namespace = ns, rawConfig = raw,
                                         isLocal = True\<rparr>))))"

definition Client :: "('c, 'x) Manager \<Rightarrow> 'c" where
  "Client m = clientset m"

definition Namespace :: "('c, 'x) Manager \<Rightarrow> string" where
  "Namespace m = namespace m"

definition SetNamespace :: "string \<Rightarrow> ('c, 'x) Manager \<Rightarrow> ('c, 'x) Manager" where
  "SetNamespace ns m = m\<lparr>namespace := ns\<rparr>"

definition IsLocal :: "('c, 'x) Manager \<Rightarrow> bool" where
  "IsLocal m = isLocal m"

text \<open>
  \<open>SwitchContext\<close> returns the error (\<open>None\<close> for \<open>nil\<close>) and the manager as the call
  leaves it. The assignment to \<open>rawConfig.CurrentContext\<close> comes before the client is
  built, as in the source.
\<close>

definition SwitchContext ::
  "('c, 'r, 'x) kube_env \<Rightarrow> string \<Rightarrow> ('c, 'x) Manager
     \<Rightarrow> kube_error option \<times> ('c, 'x) Manager" where
  "SwitchContext env name m =
     (if \<not> isLocal m then (Some CannotSwitchInCluster, m)
      else if api_Contexts (rawConfig m) name = None then (Some (ContextNotFound name), m)
      else
        (let m1 = m\<lparr>rawConfig := (rawConfig m)\<lparr>api_CurrentContext := name\<rparr>\<rparr>
         in case override_ClientConfig env name of
              Inl e \<Rightarrow> (Some (SwitchRestConfigFailed name e), m1)
            | Inr restConfig \<Rightarrow>
                (case NewForConfig env restConfig of
                   Inl e \<Rightarrow> (Some (SwitchClientsetFailed name e), m1)
                 | Inr cs \<Rightarrow>
                     (let m2 = m1\<lparr>clientset := cs\<rparr>
                      in case override_Namespace env name of
                           Inr ns \<Rightarrow>
                             if ns \<noteq> [] then (None, m2\<lparr>namespace := ns\<rparr>)
                             else (None, m2\<lparr>namespace := ''default''\<rparr>)
                         | Inl e \<Rightarrow> (None, m2\<lparr>namespace := ''default''\<rparr>)))))"

text \<open>
  Every method takes \<open>m.mu\<close> on entry and releases it on return, so the bodies of
  concurrent calls take effect one at a time. A concurrent execution is therefore a
  schedule: the list of calls in the order in which they hold the lock, each with what it
  returned.
\<close>

datatype call = CallClient | CallNamespace | CallSetNamespace string | CallSwitchContext string

datatype 'c ret = RetClient 'c | RetNamespace string | RetUnit | RetError "kube_error option"

fun do_call ::
  "('c, 'r, 'x) kube_env \<Rightarrow> ('c, 'x) Manager \<Rightarrow> call \<Rightarrow> 'c ret \<times> ('c, 'x) Manager" where
  "do_call env m CallClient = (RetClient (Client m), m)"
| "do_call env m CallNamespace = (RetNamespace (Namespace m), m)"
| "do_call env m (CallSetNamespace ns) = (RetUnit, SetNamespace ns m)"
| "do_call env m (CallSwitchContext name) =
     (case SwitchContext env name m of (err, m') \<Rightarrow> (RetError err, m'))"

fun schedule ::
  "('c, 'r, 'x) kube_env \<Rightarrow> ('c, 'x) Manager \<Rightarrow> call list
     \<Rightarrow> 'c ret list \<times> ('c, 'x) Manager" where
  "schedule env m [] = ([], m)"
| "schedule env m (c # cs) =
     (case do_call env m c of
        (r, m') \<Rightarrow> (case schedule env m' cs of (rs, m'') \<Rightarrow> (r # rs, m'')))"

fun is_read :: "call \<Rightarrow> bool" where
  "is_read CallClient = True"
| "is_read CallNamespace = True"
| "is_read (CallSetNamespace ns) = False"
| "is_read (CallSwitchContext name) = False"

text \<open>A concrete local-mode setting: two contexts, \<open>dev\<close> active, \<open>prod\<close> known.\<close>

definition demo_config :: "unit api_Config" where
  "demo_config =
     \<lparr>api_Contexts = [''dev'' \<mapsto> (), ''prod'' \<mapsto> ()], api_CurrentContext = ''dev''\<rparr>"

definition demo_manager :: "(string, unit) Manager" where
  "demo_manager =
     \<lparr>clientset = ''client-dev'', namespace = ''team-a'', rawConfig = demo_config,
      isLocal = True\<rparr>"

definition demo_env :: "(string, string, unit) kube_env" where
  "demo_env =
     \<lparr>InClusterConfig = Inl ''not running in a cluster'',
      ReadFile_namespace = Inl ''no such file'',
      NewForConfig = (\<lambda>r. Inr (''client-'' @ r)),
      HomeDir = ''/home/u'',
      Getenv_KUBECONFIG = [],
      path_RawConfig = (\<lambda>p. Inr demo_config),
      path_Namespace = (\<lambda>p. Inr ''team-a''),
      path_ClientConfig = (\<lambda>p. Inr ''dev''),
      override_Namespace = (\<lambda>n. if n = ''prod'' then Inr ''team-b'' else Inr ''team-a''),
      override_ClientConfig = (\<lambda>n. Inr n)\<rparr>"

text \<open>The same setting, except that no REST configuration can be built for \<open>prod\<close>.\<close>

definition broken_env :: "(string, string, unit) kube_env" where
  "broken_env =
     demo_env\<lparr>override_ClientConfig :=
       (\<lambda>n. if n = ''prod'' then Inl ''no server for cluster'' else Inr n)\<rparr>"

text \<open>
  The namespace a successful switch to \<open>name\<close> installs: what the overriding client
  config reports, or \<open>default\<close> when it reports an error or the empty string.
\<close>

definition switched_namespace :: "('c, 'r, 'x) kube_env \<Rightarrow> string \<Rightarrow> string" where
  "switched_namespace env name =
     (case override_Namespace env name of
        Inr ns \<Rightarrow> if ns \<noteq> [] then ns else ''default''
      | Inl e \<Rightarrow> ''default'')"

subsection \<open>The namespace form handler (internal/web/server.go)\<close>

record http_request =
  Method :: string
  URL_Path :: string
  URL_Query :: "(string \<times> string) list"
  PostForm :: "(string \<times> string) list"

datatype http_response = HttpError string nat | Redirect string nat

text \<open>\<open>Query().Get\<close> and \<open>FormValue\<close> return the first value of the key, or the empty string.\<close>

definition Query_Get :: "http_request \<Rightarrow> string \<Rightarrow> string" where
  "Query_Get r key = (case map_of (URL_Query r) key of Some v \<Rightarrow> v | None \<Rightarrow> [])"

definition FormValue :: "http_request \<Rightarrow> string \<Rightarrow> string" where
  "FormValue r key =
     (case map_of (PostForm r @ URL_Query r) key of Some v \<Rightarrow> v | None \<Rightarrow> [])"

definition handleSwitchNamespace ::
  "http_request \<Rightarrow> ('c, 'x) Manager \<Rightarrow> http_response \<times> ('c, 'x) Manager" where
  "handleSwitchNamespace r m =
     (if Method r \<noteq> ''POST'' then (HttpError ''Method not allowed'' 405, m)
      else
        (let ns = FormValue r ''namespace''
         in if ns = [] then (HttpError ''Namespace is required'' 400, m)
            else (Redirect ''/'' 302, SetNamespace ns m)))"

section \<open>The exec bridge (internal/web/handlers_pods.go)\<close>

record TerminalMessage =
  Type :: string
  Data :: string
  Rows :: "16 word"
  Cols :: "16 word"

text \<open>The size the transport pulls: \<open>remotecommand.TerminalSize\<close>, two unsigned 16-bit fields.\<close>

record TerminalSize =
  Width :: "16 word"
  Height :: "16 word"

definition output_frame :: "string \<Rightarrow> TerminalMessage" where
  "output_frame d = \<lparr>Type = ''output'', Data = d, Rows = 0, Cols = 0\<rparr>"

subsection \<open>Frames on the wire\<close>

text \<open>
  \<open>conn.WriteJSON\<close> sends a frame as JSON text. The encoder of \<open>encoding/json\<close> coerces a
  string to valid UTF-8: it walks the bytes, keeps every well-formed UTF-8 sequence, and
  replaces each byte that does not start one by the replacement character U+FFFD (the
  bytes EF BF BD). \<open>rune_width\<close> is the length of the well-formed sequence at the head of
  the bytes, as \<open>utf8.DecodeRuneInString\<close> finds it, and 0 when there is none.
\<close>

definition continuation :: "nat \<Rightarrow> bool" where
  "continuation b = (0x80 \<le> b \<and> b \<le> 0xBF)"

fun rune_width :: "nat list \<Rightarrow> nat" where
  "rune_width [] = 0"
| "rune_width (b0 # bs) =
     (if b0 < 0x80 then 1
      else if 0xC2 \<le> b0 \<and> b0 \<le> 0xDF
      then (case bs of
              b1 # rest \<Rightarrow> if continuation b1 then 2 else 0
            | [] \<Rightarrow> 0)
      else if 0xE0 \<le> b0 \<and> b0 \<le> 0xEF
      then (case bs of
              b1 # b2 # rest \<Rightarrow>
                if (if b0 = 0xE0 then 0xA0 else 0x80) \<le> b1
                   \<and> b1 \<le> (if b0 = 0xED then 0x9F else 0xBF)
                   \<and> continuation b2
                then 3 else 0
            | _ \<Rightarrow> 0)
      else if 0xF0 \<le> b0 \<and> b0 \<le> 0xF4
      then (case bs of
              b1 # b2 # b3 # rest \<Rightarrow>
                if (if b0 = 0xF0 then 0x90 else 0x80) \<le> b1
                   \<and> b1 \<le> (if b0 = 0xF4 then 0x8F else 0xBF)
                   \<and> continuation b2 \<and> continuation b3
                then 4 else 0
            | _ \<Rightarrow> 0)
      else 0)"

definition replacement_char :: string where
  "replacement_char = [CHR 0xEF, CHR 0xBF, CHR 0xBD]"

function json_coerce :: "string \<Rightarrow> string" where
  "json_coerce [] = []"
| "json_coerce (c # cs) =
     (let n = rune_width (map of_char (c # cs))
      in if n = 0 then replacement_char @ json_coerce cs
         else take n (c # cs) @ json_coerce (drop n (c # cs)))"
  by pat_completeness auto
termination
  by (relation "measure length") auto


text \<open>The frame as the client decodes it from the JSON text.\<close>

definition on_wire :: "TerminalMessage \<Rightarrow> TerminalMessage" where
  "on_wire msg = msg\<lparr>Type := json_coerce (Type msg), Data := json_coerce (Data msg)\<rparr>"

subsection \<open>Opening the session (lines 410 to 458)\<close>

text \<open>\<open>strings.Split\<close> with a one-character separator: the empty string gives one empty part.\<close>

fun Split :: "string \<Rightarrow> char \<Rightarrow> string list" where
  "Split [] sep = [[]]"
| "Split (c # cs) sep =
     (if c = sep then [] # Split cs sep
      else (case Split cs sep of [] \<Rightarrow> [[c]] | p # ps \<Rightarrow> (c # p) # ps))"

text \<open>
  What the library calls of the opening return. When \<open>upgrader.Upgrade\<close> fails it has
  already answered the client itself: \<open>Upgrade_failure\<close> is that answer together with the
  error text. The exec request is built by the REST client from the pod name, the
  namespace and the container, and \<open>NewSPDYExecutor\<close> gets its URL:
  \<open>NewSPDYExecutor_err\<close> is the error, if any, of that chain for the three values
  passed in. What the request looks like is the library's matter.
\<close>

record ws_env =
  Upgrade_failure :: "(http_response \<times> string) option"
  RESTConfig_err :: "string option"
  NewSPDYExecutor_err :: "string \<Rightarrow> string \<Rightarrow> string \<Rightarrow> string option"

datatype ws_open =
    Rejected http_response
  | UpgradeFailed http_response string
  | SetupFailed TerminalMessage
  | SessionStarted

text \<open>
  \<open>Rejected\<close> is an \<open>http.Error\<close> before \<open>upgrader.Upgrade\<close> is called.
  \<open>UpgradeFailed\<close> is the failed upgrade: the answer the upgrader has sent, and the line
  the handler's own \<open>http.Error\<close> adds to it (its status 500 comes too late to count).
  \<open>SetupFailed\<close> is an error frame on the upgraded socket, as the client decodes it.
  \<open>SessionStarted\<close>: the socket is upgraded, the executor exists, and the handler goes
  on to create the pipes, the size channel and the pumps.
\<close>

definition handlePodExecWS ::
  "ws_env \<Rightarrow> ('c, 'x) Manager \<Rightarrow> http_request \<Rightarrow> ws_open" where
  "handlePodExecWS env m r =
     (let parts = Split (URL_Path r) CHR ''/''
      in if length parts < 3 then Rejected (HttpError ''Invalid path'' 400)
         else
           (let name = parts ! 2;
                container = Query_Get r ''container''
            in if container = [] then Rejected (HttpError ''Container is required'' 400)
               else
                 (case Upgrade_failure env of
                    Some (answer, e) \<Rightarrow>
                      UpgradeFailed answer (''Failed to upgrade to WebSocket: '' @ e)
                  | None \<Rightarrow>
                      (case RESTConfig_err env of
                         Some e \<Rightarrow>
                           SetupFailed (on_wire (output_frame (''Error getting REST config: '' @ e)))
                       | None \<Rightarrow>
                           (case NewSPDYExecutor_err env name (Namespace m) container of
                              Some e \<Rightarrow>
                                SetupFailed
                                  (on_wire (output_frame (''Error creating executor: '' @ e)))
                            | None \<Rightarrow> SessionStarted)))))"

text \<open>An environment in which the upgrade and the preparation of the executor succeed.\<close>

definition demo_ws_env :: ws_env where
  "demo_ws_env =
     \<lparr>Upgrade_failure = None, RESTConfig_err = None,
      NewSPDYExecutor_err = (\<lambda>name ns container. None)\<rparr>"

subsection \<open>Channels\<close>

text \<open>
  A buffered Go channel: the values waiting in it, its capacity, and whether it has been
  closed.
\<close>

record 'a chan =
  buf :: "'a list"
  capacity :: nat
  closed :: bool

definition make_chan :: "nat \<Rightarrow> 'a chan" where
  "make_chan n = \<lparr>buf = [], capacity = n, closed = False\<rparr>"

text \<open>
  The send in \<open>select { case ch <- v: default: }\<close>: it places \<open>v\<close> when the buffer has
  room and does nothing otherwise. A send on a closed channel panics (\<open>None\<close>).
\<close>

definition try_send :: "'a chan \<Rightarrow> 'a \<Rightarrow> 'a chan option" where
  "try_send c v =
     (if closed c then None
      else if length (buf c) < capacity c then Some (c\<lparr>buf := buf c @ [v]\<rparr>)
      else Some c)"

text \<open>
  \<open>terminalSizeQueue.Next\<close> receives from the channel: the oldest waiting value; the nil
  sentinel when the channel is closed and drained; otherwise the call cannot return yet.
\<close>

datatype next_result = NextSize TerminalSize | NextNil | NextBlocked

definition Next :: "TerminalSize chan \<Rightarrow> next_result \<times> TerminalSize chan" where
  "Next c =
     (case buf c of
        sz # rest \<Rightarrow> (NextSize sz, c\<lparr>buf := rest\<rparr>)
      | [] \<Rightarrow> if closed c then (NextNil, c) else (NextBlocked, c))"

subsection \<open>The session (lines 460 to 543)\<close>

text \<open>
  Three goroutines share the session: the inbound pump, the outbound pump, and the handler
  itself, which waits in \<open>StreamWithContext\<close> and then runs the termination sequence. Each
  has a control point; the calls that block (\<open>conn.ReadMessage\<close>, \<open>stdoutReader.Read\<close>,
  \<open>StreamWithContext\<close>, \<open>wg.Wait\<close>) are control points of their own, left when the
  awaited result arrives.
\<close>

datatype inbound_pc = AtSelect | InReadMessage | InboundExited | InboundPanicked

text \<open>
  The outbound pump waits in \<open>stdoutReader.Read\<close>, or holds a non-empty chunk that it is
  about to pass to \<open>conn.WriteJSON\<close>, or has returned.
\<close>

datatype outbound_pc = InStdoutRead | AtWriteJSON string | OutboundExited

datatype writer = ByPump | ByHandler

datatype main_pc =
    InStream
  | AtCloseDone "string option"
  | AtStdinReaderClose "string option"
  | AtStdoutWriterClose "string option"
  | AtFinalFrame "string option"
  | AtWait
  | Returned

record session =
  sizeChan :: "TerminalSize chan"
  done_closed :: bool
  stdin_bytes :: string
  stdinWriter_closed :: bool
  stdinReader_closed :: bool
  stdoutWriter_closed :: bool
  conn_frames :: "(writer \<times> TerminalMessage) list"
  conn_failed :: bool
  conn_closed :: bool
  inbound :: inbound_pc
  outbound :: outbound_pc
  main :: main_pc
  stdout_taken :: "string list"

text \<open>
  \<open>stdin_bytes\<close> are the bytes the stdin pipe has passed to the transport, in order;
  \<open>conn_frames\<close> are the frames \<open>conn.WriteJSON\<close> has accepted, in order, each as the
  client decodes it and with the goroutine that wrote it. \<open>stdout_taken\<close> are the chunks
  that \<open>stdoutReader.Read\<close> has returned to the outbound pump, in order; no step reads
  this field or the writer of a frame. The session starts with the initial size already
  in the channel of capacity one.
\<close>

definition new_session :: session where
  "new_session =
     \<lparr>sizeChan = (make_chan 1)\<lparr>buf := [\<lparr>Width = 120, Height = 30\<rparr>]\<rparr>,
      done_closed = False,
      stdin_bytes = [],
      stdinWriter_closed = False,
      stdinReader_closed = False,
      stdoutWriter_closed = False,
      conn_frames = [],
      conn_failed = False,
      conn_closed = False,
      inbound = AtSelect,
      outbound = InStdoutRead,
      main = InStream,
      stdout_taken = []\<rparr>"

text \<open>
  A write on a pipe with a closed end returns an error, which the pump ignores. A write on
  the open pipe hands its bytes to the transport; the wait for the transport to take them
  is not a control point of its own.
\<close>

definition stdinWriter_Write :: "session \<Rightarrow> string \<Rightarrow> session" where
  "stdinWriter_Write s p =
     (if stdinWriter_closed s \<or> stdinReader_closed s then s
      else s\<lparr>stdin_bytes := stdin_bytes s @ p\<rparr>)"

text \<open>
  One call of \<open>conn.WriteJSON\<close> is one step: the frame goes out whole or not at all. The
  pump and the handler both write to the socket, with no lock between them; their frames
  can follow each other in any order, and two writes at the same moment are not described.
\<close>

definition conn_WriteJSON ::
  "session \<Rightarrow> writer \<Rightarrow> TerminalMessage \<Rightarrow> session \<times> bool" where
  "conn_WriteJSON s w msg =
     (if conn_failed s \<or> conn_closed s then (s, False)
      else (s\<lparr>conn_frames := conn_frames s @ [(w, on_wire msg)]\<rparr>, True))"

text \<open>The pump's deferred calls: \<open>stdinWriter.Close()\<close> and \<open>wg.Done()\<close>.\<close>

definition inbound_return :: "session \<Rightarrow> session" where
  "inbound_return s = s\<lparr>inbound := InboundExited, stdinWriter_closed := True\<rparr>"

text \<open>
  Lines 487 to 500, for a message that \<open>ReadMessage\<close> returned. \<open>json.Unmarshal\<close> is the
  parameter \<open>unmarshal\<close>: \<open>None\<close> when it reports an error.
\<close>

definition on_message ::
  "(string \<Rightarrow> TerminalMessage option) \<Rightarrow> session \<Rightarrow> string \<Rightarrow> session" where
  "on_message unmarshal s message =
     (case unmarshal message of
        None \<Rightarrow> s\<lparr>inbound := AtSelect\<rparr>
      | Some msg \<Rightarrow>
          if Type msg = ''input''
          then (stdinWriter_Write s (Data msg))\<lparr>inbound := AtSelect\<rparr>
          else if Type msg = ''resize''
          then (case try_send (sizeChan s) \<lparr>Width = Cols msg, Height = Rows msg\<rparr> of
                  None \<Rightarrow> s\<lparr>inbound := InboundPanicked\<rparr>
                | Some c \<Rightarrow> s\<lparr>sizeChan := c, inbound := AtSelect\<rparr>)
          else s\<lparr>inbound := AtSelect\<rparr>)"

definition final_frame :: "string option \<Rightarrow> TerminalMessage" where
  "final_frame err =
     (case err of
        Some e \<Rightarrow>
          output_frame ([CHR 0x0D, CHR 0x0A, CHR 0x0D, CHR 0x0A] @ ''Session ended: '' @ e)
      | None \<Rightarrow>
          output_frame ([CHR 0x0D, CHR 0x0A, CHR 0x0D, CHR 0x0A] @ ''Session ended.''))"

text \<open>One statement of the termination sequence, lines 533 to 543, and the deferred \<open>conn.Close()\<close>.\<close>

definition main_step :: "session \<Rightarrow> session" where
  "main_step s =
     (case main s of
        InStream \<Rightarrow> s
      | AtCloseDone err \<Rightarrow> s\<lparr>done_closed := True, main := AtStdinReaderClose err\<rparr>
      | AtStdinReaderClose err \<Rightarrow> s\<lparr>stdinReader_closed := True, main := AtStdoutWriterClose err\<rparr>
      | AtStdoutWriterClose err \<Rightarrow> s\<lparr>stdoutWriter_closed := True, main := AtFinalFrame err\<rparr>
      | AtFinalFrame err \<Rightarrow>
          (fst (conn_WriteJSON s ByHandler (final_frame err)))\<lparr>main := AtWait\<rparr>
      | AtWait \<Rightarrow>
          if inbound s = InboundExited \<and> outbound s = OutboundExited
          then s\<lparr>main := Returned, conn_closed := True\<rparr>
          else s
      | Returned \<Rightarrow> s)"

datatype read_message = Message string | ReadMessageError

datatype stdout_read = ReadBytes string | ReadError

text \<open>
  What can happen next in a session. An event that finds its goroutine elsewhere (a
  \<open>ReadMessage\<close> result while the pump is not reading, say) changes nothing. A panic ends
  the process: nothing happens after it.
\<close>

datatype event =
    InboundSelect
  | ReadMessageReturns read_message
  | StdoutReadReturns stdout_read
  | OutboundWrite
  | TransportNext
  | StreamReturns "string option"
  | MainStep
  | ConnFails

fun step :: "(string \<Rightarrow> TerminalMessage option) \<Rightarrow> session \<Rightarrow> event \<Rightarrow> session" where
  "step unmarshal s InboundSelect =
     (if inbound s = AtSelect
      then (if done_closed s then inbound_return s else s\<lparr>inbound := InReadMessage\<rparr>)
      else s)"
| "step unmarshal s (ReadMessageReturns r) =
     (if inbound s = InReadMessage
      then (case r of
              ReadMessageError \<Rightarrow> inbound_return s
            | Message message \<Rightarrow> on_message unmarshal s message)
      else s)"
| "step unmarshal s (StdoutReadReturns r) =
     (if outbound s = InStdoutRead \<and> inbound s \<noteq> InboundPanicked
      then (case r of
              ReadError \<Rightarrow> s\<lparr>outbound := OutboundExited\<rparr>
            | ReadBytes b \<Rightarrow>
                if 0 < length b
                then s\<lparr>outbound := AtWriteJSON b, stdout_taken := stdout_taken s @ [b]\<rparr>
                else s\<lparr>stdout_taken := stdout_taken s @ [b]\<rparr>)
      else s)"
| "step unmarshal s OutboundWrite =
     (if inbound s = InboundPanicked then s
      else (case outbound s of
              AtWriteJSON b \<Rightarrow>
                (case conn_WriteJSON s ByPump (output_frame b) of
                   (s', ok) \<Rightarrow>
                     if ok then s'\<lparr>outbound := InStdoutRead\<rparr>
                     else s'\<lparr>outbound := OutboundExited\<rparr>)
            | _ \<Rightarrow> s))"
| "step unmarshal s TransportNext =
     (if inbound s = InboundPanicked then s else s\<lparr>sizeChan := snd (Next (sizeChan s))\<rparr>)"
| "step unmarshal s (StreamReturns err) =
     (if main s = InStream \<and> inbound s \<noteq> InboundPanicked then s\<lparr>main := AtCloseDone err\<rparr>
      else s)"
| "step unmarshal s MainStep =
     (if inbound s = InboundPanicked then s else main_step s)"
| "step unmarshal s ConnFails = s\<lparr>conn_failed := True\<rparr>"

definition run ::
  "(string \<Rightarrow> TerminalMessage option) \<Rightarrow> session \<Rightarrow> event list \<Rightarrow> session" where
  "run unmarshal s evs = foldl (step unmarshal) s evs"




text \<open>
  Some frames a client may send, and a decoder that knows them. A field that a frame does
  not carry keeps the zero value of its type, as \<open>json.Unmarshal\<close> leaves it.
\<close>

definition frame_R1 :: string where
  \<open>frame_R1 = ''{"type":"resize","rows":40,"cols":100}''\<close>

definition frame_R2 :: string where
  \<open>frame_R2 = ''{"type":"resize","rows":50,"cols":132}''\<close>

definition frame_R3 :: string where
  \<open>frame_R3 = ''{"type":"resize","rows":24,"cols":80}''\<close>

definition frame_ls :: string where
  \<open>frame_ls = ''{"type":"input","data":"ls"}''\<close>

definition frame_bogus :: string where
  \<open>frame_bogus = ''{"type":"bogus"}''\<close>

definition frame_bare_resize :: string where
  \<open>frame_bare_resize = ''{"type":"resize"}''\<close>

definition demo_unmarshal :: "string \<Rightarrow> TerminalMessage option" where
  "demo_unmarshal b =
     (if b = frame_R1 then Some \<lparr>Type = ''resize'', Data = [], Rows = 40, Cols = 100\<rparr>
      else if b = frame_R2 then Some \<lparr>Type = ''resize'', Data = [], Rows = 50, Cols = 132\<rparr>
      else if b = frame_R3 then Some \<lparr>Type = ''resize'', Data = [], Rows = 24, Cols = 80\<rparr>
      else if b = frame_ls then Some \<lparr>Type = ''input'', Data = ''ls'', Rows = 0, Cols = 0\<rparr>
      else if b = frame_bogus then Some \<lparr>Type = ''bogus'', Data = [], Rows = 0, Cols = 0\<rparr>
      else if b = frame_bare_resize
      then Some \<lparr>Type = ''resize'', Data = [], Rows = 0, Cols = 0\<rparr>
      else None)"

subsection \<open>Notions used in the proofs about sessions\<close>

text \<open>The size a resize frame offers to the channel.\<close>

definition resize_of :: "TerminalMessage \<Rightarrow> TerminalSize" where
  "resize_of msg = \<lparr>Width = Cols msg, Height = Rows msg\<rparr>"

text \<open>Invariants of a session: they hold of \<open>new_session\<close> and every step keeps them.\<close>

definition chan_ok :: "session \<Rightarrow> bool" where
  "chan_ok s =
     (\<not> closed (sizeChan s) \<and> capacity (sizeChan s) = 1 \<and> inbound s \<noteq> InboundPanicked)"

definition returned_ok :: "session \<Rightarrow> bool" where
  "returned_ok s = (main s \<noteq> Returned \<or> inbound s = InboundExited)"

definition exit_ok :: "session \<Rightarrow> bool" where
  "exit_ok s = (inbound s \<noteq> InboundExited \<or> stdinWriter_closed s)"

text \<open>The inbound pump has gone and the channel is empty and open.\<close>

definition drained :: "session \<Rightarrow> bool" where
  "drained s = (inbound s = InboundExited \<and> buf (sizeChan s) = [] \<and> \<not> closed (sizeChan s))"


fun is_ReadMessageReturns :: "event \<Rightarrow> bool" where
  "is_ReadMessageReturns (ReadMessageReturns r) = True"
| "is_ReadMessageReturns e = False"

section \<open>Failing context switches\<close>

text \<open>
  C1. A call \<open>SwitchContext name\<close> with \<open>name\<close> not a key of the known contexts, or on a
  manager that is not in local mode, returns an error, and \<open>Client\<close> and \<open>Namespace\<close>
  return after the call what they returned before it. (The whole manager is unchanged.)
\<close>

theorem SwitchContext_unknown_or_in_cluster:
  assumes "api_Contexts (rawConfig m) name = None \<or> \<not> IsLocal m"
  shows "fst (SwitchContext env name m) \<noteq> None
       \<and> Client (snd (SwitchContext env name m)) = Client m
       \<and> Namespace (snd (SwitchContext env name m)) = Namespace m
       \<and> snd (SwitchContext env name m) = m"
  using assms by (auto simp: SwitchContext_def IsLocal_def)

theorem SwitchContext_unknown_or_in_cluster_witness:
  "(api_Contexts (rawConfig demo_manager) ''staging'' = None \<or> \<not> IsLocal demo_manager)
   \<and> fst (SwitchContext demo_env ''staging'' demo_manager) = Some (ContextNotFound ''staging'')
   \<and> Client (snd (SwitchContext demo_env ''staging'' demo_manager)) = ''client-dev''
   \<and> Namespace (snd (SwitchContext demo_env ''staging'' demo_manager)) = ''team-a''"
proof -
  have h: "api_Contexts (rawConfig demo_manager) ''staging'' = None \<or> \<not> IsLocal demo_manager"
    by (simp add: demo_manager_def demo_config_def)
  have e: "fst (SwitchContext demo_env ''staging'' demo_manager)
             = Some (ContextNotFound ''staging'')"
    by (simp add: SwitchContext_def demo_manager_def demo_config_def)
  have c: "Client demo_manager = ''client-dev''" "Namespace demo_manager = ''team-a''"
    by (simp_all add: Client_def Namespace_def demo_manager_def)
  show ?thesis
    using h e c SwitchContext_unknown_or_in_cluster [OF h, of demo_env] by simp
qed

text \<open>
  C2. A failing \<open>SwitchContext\<close> is specified to leave clientset, namespace and the
  current-context name of the raw config as they were. The code does not do so on the
  errors that follow the name check. The evaluation below is the call
  \<open>SwitchContext prod\<close> on a local-mode manager that knows \<open>prod\<close>, when no REST
  configuration can be built for it: the call returns an error, clientset and namespace
  are those of \<open>dev\<close>, and the current-context name has moved from \<open>dev\<close> to \<open>prod\<close>.
\<close>

theorem SwitchContext_failure_moves_current_context:
  "fst (SwitchContext broken_env ''prod'' demo_manager)
     = Some (SwitchRestConfigFailed ''prod'' ''no server for cluster'')
   \<and> clientset (snd (SwitchContext broken_env ''prod'' demo_manager)) = clientset demo_manager
   \<and> namespace (snd (SwitchContext broken_env ''prod'' demo_manager)) = namespace demo_manager
   \<and> api_CurrentContext (rawConfig demo_manager) = ''dev''
   \<and> api_CurrentContext (rawConfig (snd (SwitchContext broken_env ''prod'' demo_manager)))
       = ''prod''"
  by (simp add: SwitchContext_def broken_env_def demo_env_def demo_manager_def demo_config_def)

section \<open>Readers concurrent with a switch\<close>

lemma do_call_read:
  "is_read c \<Longrightarrow>
   do_call env m c = (if c = CallClient then RetClient (Client m) else RetNamespace (Namespace m), m)"
  by (cases c) simp_all

lemma schedule_reads:
  "list_all is_read rs \<Longrightarrow>
   schedule env m rs =
     (map (\<lambda>c. if c = CallClient then RetClient (Client m) else RetNamespace (Namespace m)) rs, m)"
proof (induction rs)
  case Nil
  show ?case by simp
next
  case (Cons c rs)
  then have "is_read c" and "list_all is_read rs" by simp_all
  with Cons.IH show ?case by (simp add: do_call_read)
qed

lemma SwitchContext_success:
  assumes "SwitchContext env name m = (None, m')"
  shows "\<exists>restConfig cs. override_ClientConfig env name = Inr restConfig
           \<and> NewForConfig env restConfig = Inr cs
           \<and> m' = m\<lparr>rawConfig := (rawConfig m)\<lparr>api_CurrentContext := name\<rparr>,
                    clientset := cs, namespace := switched_namespace env name\<rparr>"
  using assms
  by (auto simp: SwitchContext_def switched_namespace_def Let_def
           split: if_splits sum.splits)

text \<open>
  C3, counterexample. A reader calls \<open>Client\<close>, a successful \<open>SwitchContext prod\<close> takes the
  lock next, then the reader calls \<open>Namespace\<close>: the reader holds the client of \<open>dev\<close>
  and the namespace of \<open>prod\<close>.
\<close>

theorem torn_read_counterexample:
  "fst (schedule demo_env demo_manager [CallClient, CallSwitchContext ''prod'', CallNamespace])
     = [RetClient ''client-dev'', RetError None, RetNamespace ''team-b'']
   \<and> fst (schedule demo_env demo_manager [CallClient, CallNamespace])
       = [RetClient ''client-dev'', RetNamespace ''team-a'']
   \<and> fst (schedule demo_env demo_manager [CallSwitchContext ''prod'', CallClient, CallNamespace])
       = [RetError None, RetClient ''client-prod'', RetNamespace ''team-b'']"
  by (simp add: SwitchContext_def Client_def Namespace_def demo_env_def demo_manager_def
        demo_config_def)

text \<open>
  C3, amended. Each of \<open>Client\<close> and \<open>Namespace\<close> is one read under the lock, and a
  successful \<open>SwitchContext name\<close> installs client and namespace in one step under the
  lock. So in every schedule of reads that all come after the switch, with no other write
  among them, every \<open>Client\<close> returns the client built for \<open>name\<close> and every \<open>Namespace\<close>
  returns the namespace of \<open>name\<close> (\<open>default\<close> when it has none). Nothing is said about a
  reader whose two calls lie on different sides of the switch.
\<close>

theorem reads_after_switch_consistent:
  assumes "SwitchContext env name m = (None, m')"
      and "list_all is_read rs"
  shows "\<exists>restConfig cs. override_ClientConfig env name = Inr restConfig
           \<and> NewForConfig env restConfig = Inr cs
           \<and> schedule env m' rs =
               (map (\<lambda>c. if c = CallClient then RetClient cs
                          else RetNamespace (switched_namespace env name)) rs, m')"
proof -
  from SwitchContext_success [OF assms(1)] obtain restConfig cs where
    rc: "override_ClientConfig env name = Inr restConfig"
    and cs: "NewForConfig env restConfig = Inr cs"
    and m': "m' = m\<lparr>rawConfig := (rawConfig m)\<lparr>api_CurrentContext := name\<rparr>,
                    clientset := cs, namespace := switched_namespace env name\<rparr>"
    by blast
  have "Client m' = cs" and "Namespace m' = switched_namespace env name"
    by (simp_all add: m' Client_def Namespace_def)
  with schedule_reads [OF assms(2), of env m'] rc cs show ?thesis by simp
qed

theorem reads_after_switch_consistent_witness:
  "SwitchContext demo_env ''prod'' demo_manager
     = (None, demo_manager\<lparr>rawConfig := demo_config\<lparr>api_CurrentContext := ''prod''\<rparr>,
                            clientset := ''client-prod'', namespace := ''team-b''\<rparr>)
   \<and> list_all is_read [CallNamespace, CallClient, CallNamespace]
   \<and> fst (schedule demo_env
            (demo_manager\<lparr>rawConfig := demo_config\<lparr>api_CurrentContext := ''prod''\<rparr>,
                           clientset := ''client-prod'', namespace := ''team-b''\<rparr>)
            [CallNamespace, CallClient, CallNamespace])
       = [RetNamespace ''team-b'', RetClient ''client-prod'', RetNamespace ''team-b'']"
proof -
  let ?m' = "demo_manager\<lparr>rawConfig := demo_config\<lparr>api_CurrentContext := ''prod''\<rparr>,
                          clientset := ''client-prod'', namespace := ''team-b''\<rparr>"
  have sw: "SwitchContext demo_env ''prod'' demo_manager = (None, ?m')"
    by (simp add: SwitchContext_def demo_env_def demo_manager_def demo_config_def)
  have rd: "list_all is_read [CallNamespace, CallClient, CallNamespace]" by simp
  have ns: "switched_namespace demo_env ''prod'' = ''team-b''"
    by (simp add: switched_namespace_def demo_env_def)
  have nc: "NewForConfig demo_env r = Inr (''client-'' @ r)" for r
    by (simp add: demo_env_def)
  have oc: "override_ClientConfig demo_env ''prod'' = Inr ''prod''"
    by (simp add: demo_env_def)
  from reads_after_switch_consistent [OF sw rd] obtain restConfig cs where
    "override_ClientConfig demo_env ''prod'' = Inr restConfig"
    "NewForConfig demo_env restConfig = Inr cs"
    "schedule demo_env ?m' [CallNamespace, CallClient, CallNamespace] =
       (map (\<lambda>c. if c = CallClient then RetClient cs
                  else RetNamespace (switched_namespace demo_env ''prod''))
          [CallNamespace, CallClient, CallNamespace], ?m')"
    by blast
  with oc nc ns sw rd show ?thesis by simp
qed

section \<open>The namespace after initialisation\<close>

lemma SwitchContext_namespace_nonempty:
  "namespace m \<noteq> [] \<Longrightarrow> namespace (snd (SwitchContext env name m)) \<noteq> []"
  by (simp add: SwitchContext_def Let_def split: sum.splits)

lemma do_call_namespace_nonempty:
  "namespace m \<noteq> [] \<Longrightarrow> c \<noteq> CallSetNamespace [] \<Longrightarrow> namespace (snd (do_call env m c)) \<noteq> []"
proof (cases c)
  case (CallSwitchContext name)
  assume "namespace m \<noteq> []"
  from SwitchContext_namespace_nonempty [OF this, of env name] CallSwitchContext
  show ?thesis by (cases "SwitchContext env name m") simp
qed (simp_all add: SetNamespace_def)

lemma schedule_namespace_nonempty:
  "namespace m \<noteq> [] \<Longrightarrow> list_all (\<lambda>c. c \<noteq> CallSetNamespace []) cs \<Longrightarrow>
   namespace (snd (schedule env m cs)) \<noteq> []"
proof (induction cs arbitrary: m)
  case Nil
  then show ?case by simp
next
  case (Cons c cs)
  from Cons.prems have c: "c \<noteq> CallSetNamespace []"
    and cs: "list_all (\<lambda>c. c \<noteq> CallSetNamespace []) cs" by simp_all
  obtain r m1 where d: "do_call env m c = (r, m1)" by (cases "do_call env m c")
  with do_call_namespace_nonempty [OF Cons.prems(1) c, of env]
  have "namespace m1 \<noteq> []" by simp
  from Cons.IH [OF this cs] d show ?case
    by (cases "schedule env m1 cs") simp
qed

lemma NewManager_namespace_nonempty:
  assumes "NewManager env initialNamespace = Inr m"
      and "initialNamespace \<noteq> [] \<or> isLocal m \<or> ReadFile_namespace env \<noteq> Inr []"
  shows "namespace m \<noteq> []"
  using assms
  by (auto simp: NewManager_def Let_def split: sum.splits if_splits)

lemma handleSwitchNamespace_nonempty:
  "namespace m \<noteq> [] \<Longrightarrow> namespace (snd (handleSwitchNamespace r m)) \<noteq> []"
  by (simp add: handleSwitchNamespace_def SetNamespace_def Let_def)

text \<open>
  The in-cluster branch of \<open>NewManager\<close> takes the content of the service-account
  namespace file as it is, where the local branch replaces an empty namespace by
  \<open>default\<close>.
\<close>

lemma NewManager_in_cluster_empty_file:
  "NewManager (demo_env\<lparr>InClusterConfig := Inr ''in-cluster'', ReadFile_namespace := Inr []\<rparr>) []
     = Inr \<lparr>clientset = ''client-in-cluster'', namespace = [], rawConfig = zero_Config,
            isLocal = False\<rparr>"
  by (simp add: NewManager_def demo_env_def)

text \<open>
  C9, counterexample. \<open>NewManager\<close> succeeds with namespace \<open>team-a\<close>; the operation
  \<open>SetNamespace\<close> with the empty string then leaves the manager with the empty namespace.
\<close>

theorem SetNamespace_empty_counterexample:
  "NewManager demo_env ''team-a'' = Inr demo_manager
   \<and> Namespace demo_manager = ''team-a''
   \<and> Namespace (SetNamespace [] demo_manager) = []"
  by (simp add: NewManager_def demo_env_def demo_manager_def Namespace_def SetNamespace_def)

text \<open>
  C9, amended. After \<open>NewManager\<close> returns successfully in local mode, or with a non-empty
  initial namespace, or in-cluster with a service-account namespace file that is missing or
  not empty, the namespace is non-empty; it stays non-empty under every later
  \<open>SwitchContext\<close>, failed or not, and under every \<open>SetNamespace\<close> whose argument is
  non-empty. \<open>SetNamespace\<close> stores its argument as it is; the form handler in front of it
  rejects the empty value, so through the handler the namespace stays non-empty too.
\<close>

theorem namespace_nonempty_preserved:
  assumes "NewManager env initialNamespace = Inr m"
      and "initialNamespace \<noteq> [] \<or> isLocal m \<or> ReadFile_namespace env \<noteq> Inr []"
      and "list_all (\<lambda>c. c \<noteq> CallSetNamespace []) cs"
  shows "Namespace m \<noteq> []
       \<and> Namespace (snd (schedule env m cs)) \<noteq> []
       \<and> Namespace (snd (handleSwitchNamespace r (snd (schedule env m cs)))) \<noteq> []"
proof -
  have n0: "namespace m \<noteq> []"
    by (rule NewManager_namespace_nonempty [OF assms(1) assms(2)])
  have n1: "namespace (snd (schedule env m cs)) \<noteq> []"
    by (rule schedule_namespace_nonempty [OF n0 assms(3)])
  from n0 n1 handleSwitchNamespace_nonempty [OF n1, of r]
  show ?thesis by (simp add: Namespace_def)
qed

theorem namespace_nonempty_preserved_witness:
  "NewManager demo_env [] = Inr demo_manager
   \<and> isLocal demo_manager
   \<and> list_all (\<lambda>c. c \<noteq> CallSetNamespace [])
        [CallSetNamespace ''kube-system'', CallSwitchContext ''prod'', CallSwitchContext ''x'']
   \<and> Namespace (snd (schedule demo_env demo_manager
        [CallSetNamespace ''kube-system'', CallSwitchContext ''prod'', CallSwitchContext ''x'']))
       \<noteq> []"
proof -
  have a: "NewManager demo_env [] = Inr demo_manager"
    by (simp add: NewManager_def demo_env_def demo_manager_def)
  have b: "isLocal demo_manager" by (simp add: demo_manager_def)
  then have b': "[] \<noteq> ([]::string) \<or> isLocal demo_manager
                  \<or> ReadFile_namespace demo_env \<noteq> Inr []" by simp
  have c: "list_all (\<lambda>c. c \<noteq> CallSetNamespace [])
        [CallSetNamespace ''kube-system'', CallSwitchContext ''prod'', CallSwitchContext ''x'']"
    by simp
  from namespace_nonempty_preserved [OF a b' c] a b c show ?thesis by simp
qed

section \<open>Sessions: basic facts\<close>

lemma run_Nil: "run um s [] = s"
  by (simp add: run_def)

lemma run_Cons: "run um s (e # evs) = run um (step um s e) evs"
  by (simp add: run_def)

lemma run_append: "run um s (evs @ evs') = run um (run um s evs) evs'"
  by (simp add: run_def)

lemma on_message_chan_ok: "chan_ok s \<Longrightarrow> chan_ok (on_message um s message)"
  by (auto simp: chan_ok_def on_message_def try_send_def stdinWriter_Write_def
           split: option.splits)

lemma main_step_chan_ok: "chan_ok s \<Longrightarrow> chan_ok (main_step s)"
  by (auto simp: chan_ok_def main_step_def conn_WriteJSON_def split: main_pc.splits)

lemma step_chan_ok: "chan_ok s \<Longrightarrow> chan_ok (step um s e)"
proof (cases e)
  case (ReadMessageReturns r)
  assume "chan_ok s"
  with ReadMessageReturns on_message_chan_ok [of s um] show ?thesis
    by (cases r) (auto simp: inbound_return_def chan_ok_def)
next
  case MainStep
  assume "chan_ok s"
  with MainStep main_step_chan_ok [of s] show ?thesis by simp
qed (auto simp: chan_ok_def inbound_return_def conn_WriteJSON_def Next_def
          split: stdout_read.splits list.splits outbound_pc.splits)

lemma run_chan_ok: "chan_ok s \<Longrightarrow> chan_ok (run um s evs)"
  unfolding run_def by (induction evs arbitrary: s) (simp_all add: step_chan_ok)

lemma new_session_chan_ok: "chan_ok new_session"
  by (simp add: chan_ok_def new_session_def make_chan_def)

lemma step_returned_ok: "returned_ok s \<Longrightarrow> returned_ok (step um s e)"
  by (cases e)
     (auto simp: returned_ok_def inbound_return_def on_message_def main_step_def
        conn_WriteJSON_def stdinWriter_Write_def
        split: read_message.splits stdout_read.splits option.splits main_pc.splits
          outbound_pc.splits prod.splits)

lemma run_returned_ok: "returned_ok s \<Longrightarrow> returned_ok (run um s evs)"
  unfolding run_def by (induction evs arbitrary: s) (simp_all add: step_returned_ok)

lemma new_session_returned_ok: "returned_ok new_session"
  by (simp add: returned_ok_def new_session_def)

lemma demo_unmarshal_frames:
  "demo_unmarshal frame_R1 = Some \<lparr>Type = ''resize'', Data = [], Rows = 40, Cols = 100\<rparr>"
  "demo_unmarshal frame_R2 = Some \<lparr>Type = ''resize'', Data = [], Rows = 50, Cols = 132\<rparr>"
  "demo_unmarshal frame_R3 = Some \<lparr>Type = ''resize'', Data = [], Rows = 24, Cols = 80\<rparr>"
  "demo_unmarshal frame_ls = Some \<lparr>Type = ''input'', Data = ''ls'', Rows = 0, Cols = 0\<rparr>"
  "demo_unmarshal frame_bogus = Some \<lparr>Type = ''bogus'', Data = [], Rows = 0, Cols = 0\<rparr>"
  "demo_unmarshal frame_bare_resize
     = Some \<lparr>Type = ''resize'', Data = [], Rows = 0, Cols = 0\<rparr>"
  "demo_unmarshal ''not json'' = None"
  by (simp_all add: demo_unmarshal_def frame_R1_def frame_R2_def frame_R3_def frame_ls_def
        frame_bogus_def frame_bare_resize_def)

section \<open>Preconditions of an exec session\<close>

text \<open>
  C6, counterexample. The manager's namespace is empty; the request names pod \<open>web-1\<close> and
  container \<open>app\<close>. The handler does not reject it: it goes on to the upgrade, and with
  the upgrade and the executor succeeding the session starts.
\<close>

theorem empty_namespace_not_rejected_counterexample:
  "Namespace (SetNamespace [] demo_manager) = []
   \<and> handlePodExecWS demo_ws_env (SetNamespace [] demo_manager)
        \<lparr>Method = ''GET'', URL_Path = ''/pods/web-1/exec/ws'',
         URL_Query = [(''container'', ''app'')], PostForm = []\<rparr>
       = SessionStarted"
  by (simp add: handlePodExecWS_def Query_Get_def Namespace_def SetNamespace_def
        demo_manager_def demo_ws_env_def)

text \<open>
  C6, amended. For every exec-session request in which the container name is empty, the
  request is rejected with a client-visible error, status 400, before the socket is
  upgraded and before any remote connection is attempted; no session is created. Nothing
  is claimed for an empty pod name or an empty namespace.
\<close>

theorem empty_container_rejected:
  assumes "Query_Get r ''container'' = []"
  shows "handlePodExecWS env m r = Rejected (HttpError ''Invalid path'' 400)
       \<or> handlePodExecWS env m r = Rejected (HttpError ''Container is required'' 400)"
  using assms by (simp add: handlePodExecWS_def Let_def)

theorem empty_container_rejected_witness:
  "Query_Get \<lparr>Method = ''GET'', URL_Path = ''/pods/web-1/exec/ws'', URL_Query = [],
      PostForm = []\<rparr> ''container'' = []
   \<and> handlePodExecWS demo_ws_env demo_manager
        \<lparr>Method = ''GET'', URL_Path = ''/pods/web-1/exec/ws'', URL_Query = [],
         PostForm = []\<rparr>
       = Rejected (HttpError ''Container is required'' 400)"
proof -
  let ?r = "\<lparr>Method = ''GET'', URL_Path = ''/pods/web-1/exec/ws'', URL_Query = [],
      PostForm = []\<rparr>"
  have q: "Query_Get ?r ''container'' = []" by (simp add: Query_Get_def)
  have n: "handlePodExecWS demo_ws_env demo_manager ?r \<noteq> Rejected (HttpError ''Invalid path'' 400)"
    by (simp add: handlePodExecWS_def Query_Get_def)
  from empty_container_rejected [OF q, of demo_ws_env demo_manager] q n
  show ?thesis by blast
qed

section \<open>The resize slot\<close>

lemma resize_into_empty:
  assumes "chan_ok s" "buf (sizeChan s) = []" "inbound s = InReadMessage"
    "um f = Some msg" "Type msg = ''resize''"
  shows "step um s (ReadMessageReturns (Message f))
           = s\<lparr>sizeChan := (sizeChan s)\<lparr>buf := [resize_of msg]\<rparr>, inbound := AtSelect\<rparr>"
  using assms by (simp add: on_message_def try_send_def chan_ok_def resize_of_def)

lemma resize_pair_state:
  assumes "chan_ok s" "buf (sizeChan s) = []" "inbound s = InReadMessage" "\<not> done_closed s"
      and "um f1 = Some m1" "Type m1 = ''resize''"
      and "um f2 = Some m2" "Type m2 = ''resize''"
  shows "run um s [ReadMessageReturns (Message f1), InboundSelect,
                   ReadMessageReturns (Message f2), InboundSelect]
           = s\<lparr>sizeChan := (sizeChan s)\<lparr>buf := [resize_of m1]\<rparr>\<rparr>"
  using assms
  by (cases s) (simp add: run_def on_message_def try_send_def chan_ok_def resize_of_def)

lemma next_after_pair_state:
  assumes "chan_ok s" "buf (sizeChan s) = []"
  shows "step um (s\<lparr>sizeChan := (sizeChan s)\<lparr>buf := [v]\<rparr>\<rparr>) TransportNext = s"
  using assms by (cases s) (simp add: Next_def chan_ok_def)

text \<open>
  C4, counterexample. At the start of a session the slot holds the initial size 120 by 30.
  Two resize frames arrive before the transport has called \<open>Next\<close>: both are dropped, the
  transport's first \<open>Next\<close> returns 120 by 30, and its second finds the slot empty. The
  transport never observes the first resize.
\<close>

theorem first_resize_dropped_counterexample:
  "buf (sizeChan (run demo_unmarshal new_session
      [InboundSelect, ReadMessageReturns (Message frame_R1),
       InboundSelect, ReadMessageReturns (Message frame_R2)]))
     = [\<lparr>Width = 120, Height = 30\<rparr>]
   \<and> fst (Next (sizeChan (run demo_unmarshal new_session
      [InboundSelect, ReadMessageReturns (Message frame_R1),
       InboundSelect, ReadMessageReturns (Message frame_R2)])))
     = NextSize \<lparr>Width = 120, Height = 30\<rparr>
   \<and> fst (Next (sizeChan (run demo_unmarshal new_session
      [InboundSelect, ReadMessageReturns (Message frame_R1),
       InboundSelect, ReadMessageReturns (Message frame_R2),
       TransportNext])))
     = NextBlocked"
  by (simp add: run_def new_session_def on_message_def demo_unmarshal_frames try_send_def
        Next_def make_chan_def)

text \<open>
  C4, amended. The slot holds one value and the offer does not block. If the slot is empty
  when resize \<open>R1\<close> arrives (the initial size and every earlier value have been consumed),
  and \<open>R2\<close> arrives before the transport consumes \<open>R1\<close>, then the slot holds exactly
  \<open>R1\<close>, the transport's next \<open>Next\<close> returns \<open>R1\<close>, and \<open>R2\<close> is dropped; a resize
  \<open>R3\<close> that arrives after \<open>R1\<close> has been consumed is placed and returned by the
  following \<open>Next\<close>.
\<close>

theorem resize_overflow:
  assumes "buf (sizeChan (run um new_session evs)) = []"
      and "inbound (run um new_session evs) = InReadMessage"
      and "\<not> done_closed (run um new_session evs)"
      and "um f1 = Some m1" "Type m1 = ''resize''"
      and "um f2 = Some m2" "Type m2 = ''resize''"
      and "um f3 = Some m3" "Type m3 = ''resize''"
  shows "let s0 = run um new_session evs;
             s2 = run um s0 [ReadMessageReturns (Message f1), InboundSelect,
                             ReadMessageReturns (Message f2), InboundSelect];
             s3 = step um s2 TransportNext;
             s4 = step um s3 (ReadMessageReturns (Message f3))
         in buf (sizeChan s2) = [resize_of m1]
          \<and> fst (Next (sizeChan s2)) = NextSize (resize_of m1)
          \<and> buf (sizeChan s3) = []
          \<and> buf (sizeChan s4) = [resize_of m3]
          \<and> fst (Next (sizeChan s4)) = NextSize (resize_of m3)"
proof -
  define s0 where "s0 = run um new_session evs"
  have ok: "chan_ok s0" unfolding s0_def by (rule run_chan_ok [OF new_session_chan_ok])
  have e: "buf (sizeChan s0) = []" and r: "inbound s0 = InReadMessage"
    and d: "\<not> done_closed s0"
    using assms(1-3) by (simp_all add: s0_def)
  define s2 where "s2 = run um s0 [ReadMessageReturns (Message f1), InboundSelect,
                             ReadMessageReturns (Message f2), InboundSelect]"
  have s2: "s2 = s0\<lparr>sizeChan := (sizeChan s0)\<lparr>buf := [resize_of m1]\<rparr>\<rparr>"
    unfolding s2_def
    by (rule resize_pair_state [where um=um and ?f1.0=f1 and ?f2.0=f2,
          OF ok e r d assms(4) assms(5) assms(6) assms(7)])
  have s3: "step um s2 TransportNext = s0"
    unfolding s2 by (rule next_after_pair_state [OF ok e])
  have s4: "step um s0 (ReadMessageReturns (Message f3))
     = s0\<lparr>sizeChan := (sizeChan s0)\<lparr>buf := [resize_of m3]\<rparr>, inbound := AtSelect\<rparr>"
    by (rule resize_into_empty [where um=um and f=f3, OF ok e r assms(8) assms(9)])
  have "buf (sizeChan s2) = [resize_of m1]
          \<and> fst (Next (sizeChan s2)) = NextSize (resize_of m1)
          \<and> buf (sizeChan (step um s2 TransportNext)) = []
          \<and> buf (sizeChan (step um (step um s2 TransportNext) (ReadMessageReturns (Message f3))))
              = [resize_of m3]
          \<and> fst (Next (sizeChan (step um (step um s2 TransportNext)
                (ReadMessageReturns (Message f3))))) = NextSize (resize_of m3)"
    unfolding s3 s4 using e by (simp add: s2 Next_def)
  then show ?thesis
    unfolding Let_def s2_def s0_def .
qed

theorem resize_overflow_witness:
  "buf (sizeChan (run demo_unmarshal new_session [TransportNext, InboundSelect])) = []
   \<and> inbound (run demo_unmarshal new_session [TransportNext, InboundSelect]) = InReadMessage
   \<and> buf (sizeChan (run demo_unmarshal
          (run demo_unmarshal new_session [TransportNext, InboundSelect])
          [ReadMessageReturns (Message frame_R1), InboundSelect,
           ReadMessageReturns (Message frame_R2), InboundSelect]))
       = [\<lparr>Width = 100, Height = 40\<rparr>]"
proof -
  let ?evs = "[TransportNext, InboundSelect]"
  have a: "buf (sizeChan (run demo_unmarshal new_session ?evs)) = []"
    by (simp add: run_def new_session_def Next_def make_chan_def)
  have b: "inbound (run demo_unmarshal new_session ?evs) = InReadMessage"
    by (simp add: run_def new_session_def Next_def make_chan_def)
  have c: "\<not> done_closed (run demo_unmarshal new_session ?evs)"
    by (simp add: run_def new_session_def Next_def make_chan_def)
  have f1: "demo_unmarshal frame_R1
              = Some \<lparr>Type = ''resize'', Data = [], Rows = 40, Cols = 100\<rparr>"
    by (simp add: demo_unmarshal_frames)
  have f2: "demo_unmarshal frame_R2
              = Some \<lparr>Type = ''resize'', Data = [], Rows = 50, Cols = 132\<rparr>"
    by (simp add: demo_unmarshal_frames)
  have f3: "demo_unmarshal frame_R3
              = Some \<lparr>Type = ''resize'', Data = [], Rows = 24, Cols = 80\<rparr>"
    by (simp add: demo_unmarshal_frames)
  have t: "Type \<lparr>Type = ''resize'', Data = [], Rows = r, Cols = c\<rparr> = ''resize''" for r c
    by simp
  from resize_overflow [OF a b c f1 t f2 t f3 t] a b
  show ?thesis by (simp add: Let_def resize_of_def)
qed

section \<open>Frames the pump does not understand\<close>

text \<open>
  C8, counterexample. The frame \<open>{"type":"resize"}\<close> lacks the rows and columns that a
  resize frame must carry, so it is not a well-formed message. It decodes without error,
  with both fields zero, and the pump does not discard it: with the slot empty, the size
  0 by 0 is placed in the slot and the transport's next \<open>Next\<close> returns it.
\<close>

theorem bare_resize_applied_counterexample:
  "demo_unmarshal frame_bare_resize = Some \<lparr>Type = ''resize'', Data = [], Rows = 0, Cols = 0\<rparr>
   \<and> buf (sizeChan (run demo_unmarshal new_session [TransportNext, InboundSelect])) = []
   \<and> buf (sizeChan (run demo_unmarshal new_session
        [TransportNext, InboundSelect, ReadMessageReturns (Message frame_bare_resize)]))
       = [\<lparr>Width = 0, Height = 0\<rparr>]
   \<and> fst (Next (sizeChan (run demo_unmarshal new_session
        [TransportNext, InboundSelect, ReadMessageReturns (Message frame_bare_resize)])))
       = NextSize \<lparr>Width = 0, Height = 0\<rparr>"
  by (simp add: run_def new_session_def on_message_def demo_unmarshal_frames try_send_def
        Next_def make_chan_def)

text \<open>
  C8, amended. An inbound frame that \<open>json.Unmarshal\<close> rejects, or that decodes with a
  type that is neither \<open>input\<close> nor \<open>resize\<close>, is discarded: handling it changes nothing
  in the session except that the pump is back at the top of its loop. The stdin bytes, the
  resize slot, the socket and the handler are untouched; unless the termination signal
  has fired, the pump enters its next read, and the session goes on as if the frame had
  never arrived. Nothing is claimed for a frame that decodes with type \<open>input\<close> or
  \<open>resize\<close> and lacks a field.
\<close>

theorem unknown_frame_discarded:
  assumes "inbound s = InReadMessage"
      and "um f = None
           \<or> (\<exists>msg. um f = Some msg \<and> Type msg \<noteq> ''input'' \<and> Type msg \<noteq> ''resize'')"
  shows "step um s (ReadMessageReturns (Message f)) = s\<lparr>inbound := AtSelect\<rparr>
       \<and> run um s [ReadMessageReturns (Message f), InboundSelect]
           = (if done_closed s then inbound_return s else s)
       \<and> run um s (ReadMessageReturns (Message f) # InboundSelect # evs)
           = (if done_closed s then run um (inbound_return s) evs else run um s evs)"
  using assms
  by (cases s) (auto simp: run_def on_message_def inbound_return_def)

theorem unknown_frame_discarded_witness:
  "inbound (run demo_unmarshal new_session [InboundSelect]) = InReadMessage
   \<and> demo_unmarshal frame_bogus = Some \<lparr>Type = ''bogus'', Data = [], Rows = 0, Cols = 0\<rparr>
   \<and> demo_unmarshal ''not json'' = None
   \<and> run demo_unmarshal (run demo_unmarshal new_session [InboundSelect])
        [ReadMessageReturns (Message frame_bogus), InboundSelect]
       = run demo_unmarshal new_session [InboundSelect]
   \<and> run demo_unmarshal (run demo_unmarshal new_session [InboundSelect])
        [ReadMessageReturns (Message ''not json''), InboundSelect]
       = run demo_unmarshal new_session [InboundSelect]"
proof -
  let ?s = "run demo_unmarshal new_session [InboundSelect]"
  have a: "inbound ?s = InReadMessage" by (simp add: run_def new_session_def)
  have d: "\<not> done_closed ?s" by (simp add: run_def new_session_def)
  have b1: "demo_unmarshal frame_bogus
              = Some \<lparr>Type = ''bogus'', Data = [], Rows = 0, Cols = 0\<rparr>"
    by (simp add: demo_unmarshal_frames)
  have b2: "demo_unmarshal ''not json'' = None" by (simp add: demo_unmarshal_frames)
  have h1: "demo_unmarshal frame_bogus = None
     \<or> (\<exists>msg. demo_unmarshal frame_bogus = Some msg
           \<and> Type msg \<noteq> ''input'' \<and> Type msg \<noteq> ''resize'')"
    by (simp add: b1)
  have h2: "demo_unmarshal ''not json'' = None
     \<or> (\<exists>msg. demo_unmarshal ''not json'' = Some msg
           \<and> Type msg \<noteq> ''input'' \<and> Type msg \<noteq> ''resize'')"
    by (simp add: b2)
  from unknown_frame_discarded [where um=demo_unmarshal and f=frame_bogus, OF a h1]
    unknown_frame_discarded [where um=demo_unmarshal and f="''not json''", OF a h2] a b1 b2 d
  show ?thesis by (simp add: run_Nil)
qed

section \<open>The outbound pump\<close>



lemma json_coerce_output: "json_coerce ''output'' = ''output''"
  by simp












section \<open>The inbound pump and the termination signal\<close>

text \<open>The exits of the pump: a failed read, and the signal found set at the select.\<close>

lemma inbound_exits_on_read_error:
  "inbound s = InReadMessage \<Longrightarrow>
   inbound (step um s (ReadMessageReturns ReadMessageError)) = InboundExited
   \<and> stdinWriter_closed (step um s (ReadMessageReturns ReadMessageError))"
  by (simp add: inbound_return_def)

lemma inbound_exits_at_select:
  "inbound s = AtSelect \<Longrightarrow> done_closed s \<Longrightarrow>
   inbound (step um s InboundSelect) = InboundExited
   \<and> stdinWriter_closed (step um s InboundSelect)"
  by (simp add: inbound_return_def)

lemma step_exit_ok: "exit_ok s \<Longrightarrow> exit_ok (step um s e)"
  by (cases e)
     (auto simp: exit_ok_def inbound_return_def on_message_def main_step_def
        conn_WriteJSON_def stdinWriter_Write_def try_send_def
        split: read_message.splits stdout_read.splits option.splits main_pc.splits
          outbound_pc.splits prod.splits)

lemma run_exit_ok: "exit_ok s \<Longrightarrow> exit_ok (run um s evs)"
  unfolding run_def by (induction evs arbitrary: s) (simp_all add: step_exit_ok)

lemma inbound_exit_closes_stdin:
  "inbound (run um new_session evs) = InboundExited \<Longrightarrow>
   stdinWriter_closed (run um new_session evs)"
proof -
  have "exit_ok new_session" by (simp add: exit_ok_def new_session_def)
  then have "exit_ok (run um new_session evs)" by (rule run_exit_ok)
  then show "inbound (run um new_session evs) = InboundExited \<Longrightarrow>
    stdinWriter_closed (run um new_session evs)"
    by (simp add: exit_ok_def)
qed

text \<open>
  A pump inside \<open>ReadMessage\<close> stays there until \<open>ReadMessage\<close> returns, whatever else
  happens, the termination signal included; meanwhile the handler cannot get past
  \<open>wg.Wait()\<close>.
\<close>

lemma step_stays_in_read:
  "inbound s = InReadMessage \<Longrightarrow> main s \<noteq> Returned \<Longrightarrow> \<not> is_ReadMessageReturns e \<Longrightarrow>
   inbound (step um s e) = InReadMessage \<and> main (step um s e) \<noteq> Returned"
  by (cases e)
     (auto simp: main_step_def conn_WriteJSON_def
        split: stdout_read.splits main_pc.splits outbound_pc.splits)

lemma inbound_stays_in_read:
  "inbound s = InReadMessage \<Longrightarrow> main s \<noteq> Returned \<Longrightarrow>
   list_all (\<lambda>e. \<not> is_ReadMessageReturns e) evs \<Longrightarrow>
   inbound (run um s evs) = InReadMessage \<and> main (run um s evs) \<noteq> Returned"
proof (induction evs arbitrary: s)
  case Nil
  then show ?case by (simp add: run_def)
next
  case (Cons e evs)
  from Cons.prems have e: "\<not> is_ReadMessageReturns e"
    and evs: "list_all (\<lambda>e. \<not> is_ReadMessageReturns e) evs" by simp_all
  from step_stays_in_read [OF Cons.prems(1) Cons.prems(2) e, of um]
  have "inbound (step um s e) = InReadMessage" and "main (step um s e) \<noteq> Returned"
    by simp_all
  from Cons.IH [OF this evs] show ?case by (simp add: run_Cons)
qed

text \<open>
  C7. The pump's loop is specified to exit whenever the termination signal fires, and the
  pump to stop reading from the client once it has fired. The code tests the signal only
  between two reads. The evaluation below
  is a session in which the pump has entered \<open>ReadMessage\<close> when the remote stream
  returns. After \<open>close(done)\<close> the pump is still inside \<open>ReadMessage\<close>. The handler
  runs the rest of the termination sequence and stops at \<open>wg.Wait()\<close>, with the pump
  still reading and the stdin writer still open. An input frame that the client sends
  after \<open>close(done)\<close> is read and its bytes are written to stdin.
\<close>

theorem inbound_pump_blocked_after_done:
  "done_closed (run demo_unmarshal new_session [InboundSelect, StreamReturns None, MainStep])
   \<and> inbound (run demo_unmarshal new_session [InboundSelect, StreamReturns None, MainStep])
       = InReadMessage
   \<and> main (run demo_unmarshal new_session
        [InboundSelect, StreamReturns None, MainStep, MainStep, MainStep, MainStep,
         StdoutReadReturns ReadError, MainStep, MainStep, MainStep]) = AtWait
   \<and> inbound (run demo_unmarshal new_session
        [InboundSelect, StreamReturns None, MainStep, MainStep, MainStep, MainStep,
         StdoutReadReturns ReadError, MainStep, MainStep, MainStep]) = InReadMessage
   \<and> stdinWriter_closed (run demo_unmarshal new_session
        [InboundSelect, StreamReturns None, MainStep, MainStep, MainStep, MainStep,
         StdoutReadReturns ReadError, MainStep, MainStep, MainStep]) = False
   \<and> stdin_bytes (run demo_unmarshal new_session
        [InboundSelect, StreamReturns None, MainStep,
         ReadMessageReturns (Message frame_ls)]) = ''ls''
   \<and> inbound (run demo_unmarshal new_session
        [InboundSelect, StreamReturns None, MainStep,
         ReadMessageReturns (Message frame_ls)]) = AtSelect"
  by (simp add: run_def new_session_def main_step_def on_message_def demo_unmarshal_frames
        stdinWriter_Write_def conn_WriteJSON_def make_chan_def)

section \<open>The size channel is never closed\<close>

lemma step_drained: "drained s \<Longrightarrow> drained (step um s e)"
  by (cases e)
     (auto simp: drained_def main_step_def conn_WriteJSON_def Next_def
        split: stdout_read.splits main_pc.splits outbound_pc.splits)

lemma run_drained: "drained s \<Longrightarrow> drained (run um s evs)"
  unfolding run_def by (induction evs arbitrary: s) (simp_all add: step_drained)

lemma Next_not_closed: "\<not> closed c \<Longrightarrow> fst (Next c) \<noteq> NextNil"
  by (simp add: Next_def split: list.splits)

text \<open>
  C10. In every execution of the bridge the size channel stays open: no step closes it,
  the termination sequence closes the done signal and the pipe ends only. So \<open>Next\<close>
  never returns the nil sentinel. Once the inbound pump has exited (as it has when the
  handler has returned from \<open>wg.Wait()\<close>) and the channel is empty, a \<open>Next\<close> call finds
  nothing to return, now and after whatever happens later: it blocks forever.
\<close>

theorem sizeChan_never_closed:
  "\<not> closed (sizeChan (run um new_session evs))
   \<and> fst (Next (sizeChan (run um new_session evs))) \<noteq> NextNil
   \<and> ((main (run um new_session evs) = Returned
         \<or> inbound (run um new_session evs) = InboundExited)
        \<and> buf (sizeChan (run um new_session evs)) = []
        \<longrightarrow> fst (Next (sizeChan (run um (run um new_session evs) evs'))) = NextBlocked
            \<and> \<not> closed (sizeChan (run um (run um new_session evs) evs')))"
proof -
  define s where "s = run um new_session evs"
  have ok: "chan_ok s" unfolding s_def by (rule run_chan_ok [OF new_session_chan_ok])
  then have nc: "\<not> closed (sizeChan s)" by (simp add: chan_ok_def)
  have ro: "returned_ok s"
    unfolding s_def by (rule run_returned_ok [OF new_session_returned_ok])
  have blocked: "fst (Next (sizeChan (run um s evs'))) = NextBlocked
                 \<and> \<not> closed (sizeChan (run um s evs'))"
    if "main s = Returned \<or> inbound s = InboundExited" and "buf (sizeChan s) = []"
  proof -
    from ro that(1) have "inbound s = InboundExited" by (auto simp: returned_ok_def)
    with that(2) nc have "drained s" by (simp add: drained_def)
    then have "drained (run um s evs')" by (rule run_drained)
    then show ?thesis by (simp add: drained_def Next_def)
  qed
  from nc Next_not_closed [OF nc] blocked show ?thesis
    unfolding s_def by blast
qed

theorem sizeChan_never_closed_witness:
  "main (run demo_unmarshal new_session
      [TransportNext, InboundSelect, ReadMessageReturns ReadMessageError,
       StdoutReadReturns ReadError, StreamReturns None,
       MainStep, MainStep, MainStep, MainStep, MainStep]) = Returned
   \<and> buf (sizeChan (run demo_unmarshal new_session
      [TransportNext, InboundSelect, ReadMessageReturns ReadMessageError,
       StdoutReadReturns ReadError, StreamReturns None,
       MainStep, MainStep, MainStep, MainStep, MainStep])) = []
   \<and> fst (Next (sizeChan (run demo_unmarshal (run demo_unmarshal new_session
      [TransportNext, InboundSelect, ReadMessageReturns ReadMessageError,
       StdoutReadReturns ReadError, StreamReturns None,
       MainStep, MainStep, MainStep, MainStep, MainStep])
      [TransportNext, ReadMessageReturns (Message frame_R3),
       TransportNext]))) = NextBlocked"
proof -
  let ?evs = "[TransportNext, InboundSelect, ReadMessageReturns ReadMessageError,
       StdoutReadReturns ReadError, StreamReturns None,
       MainStep, MainStep, MainStep, MainStep, MainStep]"
  have a: "main (run demo_unmarshal new_session ?evs) = Returned"
    by (simp add: run_def new_session_def Next_def make_chan_def inbound_return_def
          main_step_def conn_WriteJSON_def)
  have b: "buf (sizeChan (run demo_unmarshal new_session ?evs)) = []"
    by (simp add: run_def new_session_def Next_def make_chan_def inbound_return_def
          main_step_def conn_WriteJSON_def)
  from sizeChan_never_closed [of demo_unmarshal ?evs] a b
  show ?thesis by blast
qed

end
